theory Spec2Isabelle
  imports Complex_Main
begin

section \<open>The log writer: data model\<close>

text \<open>
  A shallow embedding of \<^verbatim>\<open>scripts/log-writer.py\<close>. Exceptions are values of
  \<open>exn\<close> and a fallible function returns \<open>exn + 'a\<close> (\<open>Inl\<close> the exception raised).
  Everything outside the script (process environment, random generator, UUID source,
  standard output, the clock, the interrupt signal) lives in the record \<open>world\<close>, which
  every effectful function takes and returns.
\<close>

datatype exn =
    RuntimeError string (cause: "exn option")
  | ValueError string
  | IndexError string
  | OverflowError string
  | OtherException string
  | KeyboardInterrupt

type_synonym 'a result = "exn + 'a"

text \<open>
  \<open>isinstance(e, Exception)\<close>: \<open>KeyboardInterrupt\<close> derives from \<open>BaseException\<close> only,
  so \<^verbatim>\<open>except Exception\<close> lets it pass.
\<close>

fun is_Exception :: "exn \<Rightarrow> bool" where
  "is_Exception KeyboardInterrupt = False"
| "is_Exception _ = True"

text \<open>\<open>str(e)\<close> of an exception built from one message argument.\<close>

fun str_exn :: "exn \<Rightarrow> string" where
  "str_exn (RuntimeError m _) = m"
| "str_exn (ValueError m) = m"
| "str_exn (IndexError m) = m"
| "str_exn (OverflowError m) = m"
| "str_exn (OtherException m) = m"
| "str_exn KeyboardInterrupt = []"

record metadata =
  run_id :: string
  sequence :: int
  execution_ms :: int

record payload =
  script_name :: string
  level :: string
  message :: string
  metadata :: metadata

text \<open>What the program does to the outside, in the order it does it.\<close>

datatype event =
    Inserted payload
  | Printed string
  | Slept real

record world =
  environ :: "string \<rightharpoonup> string"
  randbits :: "nat \<Rightarrow> nat"
  rand_pos :: nat
  uuids :: "nat \<Rightarrow> string"
  uuid_pos :: nat
  sigint :: "nat \<Rightarrow> bool"
  trace :: "event list"

text \<open>
  The injected insertion capability: the answer of
  \<^verbatim>\<open>client.table("script_logs").insert(payload).execute()\<close> to the call number \<open>n\<close>
  (counted from 0) with a given payload; \<open>None\<close> is a normal return, \<open>Some e\<close> raises \<open>e\<close>.
\<close>

type_synonym client = "nat \<Rightarrow> payload \<Rightarrow> exn option"

text \<open>
  A Python \<open>float\<close>, as \<^verbatim>\<open>type=float\<close> of the argument parser produces it: a finite
  number, read as the real it denotes, or one of the three values that are no number.
\<close>

datatype pyfloat = Finite real | PosInf | NegInf | NaN

record args =
  script :: string
  count :: int
  interval :: pyfloat
  follow :: bool

section \<open>Observations on the trace\<close>

fun attempts_of :: "event list \<Rightarrow> payload list" where
  "attempts_of [] = []"
| "attempts_of (Inserted p # es) = p # attempts_of es"
| "attempts_of (_ # es) = attempts_of es"

definition attempts :: "world \<Rightarrow> payload list" where
  "attempts w = attempts_of (trace w)"

fun sleeps_of :: "event list \<Rightarrow> real list" where
  "sleeps_of [] = []"
| "sleeps_of (Slept d # es) = d # sleeps_of es"
| "sleeps_of (_ # es) = sleeps_of es"

definition sleeps :: "world \<Rightarrow> real list" where
  "sleeps w = sleeps_of (trace w)"

section \<open>Library functions the script calls\<close>

definition emit :: "event \<Rightarrow> world \<Rightarrow> world" where
  "emit e w = w\<lparr>trace := trace w @ [e]\<rparr>"

text \<open>\<open>print(s)\<close>.\<close>

definition print :: "string \<Rightarrow> world \<Rightarrow> world" where
  "print s w = emit (Printed s) w"

text \<open>\<open>os.getenv(name)\<close>: \<open>None\<close> when the variable is not set.\<close>

definition getenv :: "string \<Rightarrow> world \<Rightarrow> string option" where
  "getenv name w = environ w name"

text \<open>\<open>not x\<close> for \<open>x\<close> an optional string: true for \<open>None\<close> and for the empty string.\<close>

fun not_str :: "string option \<Rightarrow> bool" where
  "not_str None = True"
| "not_str (Some s) = (s = [])"

text \<open>
  The generator's \<open>_randbelow(n)\<close> for \<open>n > 0\<close>: some number below \<open>n\<close>, read off the
  next raw draw.
\<close>

definition randbelow :: "nat \<Rightarrow> world \<Rightarrow> nat \<times> world" where
  "randbelow n w = (randbits w (rand_pos w) mod n, w\<lparr>rand_pos := rand_pos w + 1\<rparr>)"

text \<open>\<open>random.choice(seq)\<close>: \<open>seq[_randbelow(len(seq))]\<close>, IndexError on an empty one.\<close>

definition choice :: "'a list \<Rightarrow> world \<Rightarrow> 'a result \<times> world" where
  "choice xs w =
     (if xs = [] then (Inl (IndexError ''Cannot choose from an empty sequence''), w)
      else (let (i, w') = randbelow (length xs) w in (Inr (xs ! i), w')))"

text \<open>\<open>random.randint(a, b)\<close>: \<open>a + _randbelow(b - a + 1)\<close>, ValueError on an empty range.\<close>

definition randint :: "int \<Rightarrow> int \<Rightarrow> world \<Rightarrow> int result \<times> world" where
  "randint a b w =
     (if b < a then (Inl (ValueError ''empty range for randrange()''), w)
      else (let (r, w') = randbelow (nat (b - a + 1)) w in (Inr (a + int r), w')))"

text \<open>\<open>str(uuid.uuid4())\<close>.\<close>

definition uuid4 :: "world \<Rightarrow> string \<times> world" where
  "uuid4 w = (uuids w (uuid_pos w), w\<lparr>uuid_pos := uuid_pos w + 1\<rparr>)"

text \<open>
  \<open>time.sleep(secs)\<close> first converts its argument to a signed 64-bit count of
  nanoseconds, rounding away from zero: ValueError on \<open>nan\<close>, OverflowError when the count
  does not fit (so for every delay of \<open>2\<^sup>6\<^sup>3\<close> nanoseconds or more, about 9.22e9 seconds,
  and for the infinities). Then ValueError on a negative count. Otherwise the process
  is suspended, and an interrupt delivered during this delay (the delay number \<open>n\<close> of
  the process, counted from 0, when \<open>sigint w n\<close>) raises KeyboardInterrupt. The product
  is taken over the reals, where the interpreter multiplies doubles: right next to the
  bound the two may differ by a rounding step.
\<close>

definition nanoseconds :: "real \<Rightarrow> int" where
  "nanoseconds d = (if 0 \<le> d then \<lceil>d * 1000000000\<rceil> else \<lfloor>d * 1000000000\<rfloor>)"

definition fits_PyTime :: "int \<Rightarrow> bool" where
  "fits_PyTime n = (- (2 ^ 63) \<le> n \<and> n < 2 ^ 63)"

definition sleep :: "pyfloat \<Rightarrow> world \<Rightarrow> unit result \<times> world" where
  "sleep secs w =
     (case secs of
        NaN \<Rightarrow> (Inl (ValueError ''Invalid value NaN (not a number)''), w)
      | PosInf \<Rightarrow> (Inl (OverflowError ''timestamp too large to convert to C _PyTime_t''), w)
      | NegInf \<Rightarrow> (Inl (OverflowError ''timestamp too large to convert to C _PyTime_t''), w)
      | Finite d \<Rightarrow>
          if \<not> fits_PyTime (nanoseconds d)
          then (Inl (OverflowError ''timestamp too large to convert to C _PyTime_t''), w)
          else if nanoseconds d < 0
          then (Inl (ValueError ''sleep length must be non-negative''), w)
          else (let n = length (sleeps w); w' = emit (Slept d) w
                in if sigint w n then (Inl KeyboardInterrupt, w') else (Inr (), w')))"

text \<open>Decimal text of an integer, as an f-string prints it.\<close>

definition digit_char :: "nat \<Rightarrow> char" where
  "digit_char d = ''0123456789'' ! d"

function str_nat :: "nat \<Rightarrow> string" where
  "str_nat n = (if n < 10 then [digit_char n] else str_nat (n div 10) @ [digit_char (n mod 10)])"
  by pat_completeness auto
termination
  by (relation "measure id") auto

definition str_int :: "int \<Rightarrow> string" where
  "str_int i = (if i < 0 then CHR ''-'' # str_nat (nat (- i)) else str_nat (nat i))"

section \<open>The script\<close>

definition LOG_LEVELS :: "string list" where
  "LOG_LEVELS = [''debug'', ''info'', ''warning'', ''error'']"

definition LOG_MESSAGES :: "string list" where
  "LOG_MESSAGES =
     [''Starting scheduled task'',
      ''Loading configuration'',
      ''Fetching upstream payload'',
      ''Transforming dataset'',
      ''Completed batch successfully'',
      ''Retrying after transient failure'',
      ''Writing output artifacts'',
      ''Heartbeat check'']"

definition load_config :: "world \<Rightarrow> (string \<times> string) result" where
  "load_config w =
     (let url = getenv ''SUPABASE_URL'' w;
          key = getenv ''SUPABASE_SERVICE_ROLE_KEY'' w
      in if not_str url \<or> not_str key
         then Inl (RuntimeError ''Missing SUPABASE_URL or SUPABASE_SERVICE_ROLE_KEY in env.'' None)
         else Inr (the url, the key))"

definition build_log_payload :: "string \<Rightarrow> string \<Rightarrow> int \<Rightarrow> world \<Rightarrow> payload result \<times> world" where
  "build_log_payload name rid seq w =
     (if name = [] then (Inl (ValueError ''script_name is required''), w)
      else case choice LOG_LEVELS w of
        (Inl e, w1) \<Rightarrow> (Inl e, w1)
      | (Inr lvl, w1) \<Rightarrow>
          (case choice LOG_MESSAGES w1 of
             (Inl e, w2) \<Rightarrow> (Inl e, w2)
           | (Inr msg, w2) \<Rightarrow>
               (case randint 45 1400 w2 of
                  (Inl e, w3) \<Rightarrow> (Inl e, w3)
                | (Inr ms, w3) \<Rightarrow>
                    (Inr \<lparr>script_name = name, level = lvl, message = msg,
                          metadata = \<lparr>run_id = rid, sequence = seq, execution_ms = ms\<rparr>\<rparr>,
                     w3))))"

definition insert_log :: "client \<Rightarrow> payload \<Rightarrow> world \<Rightarrow> unit result \<times> world" where
  "insert_log c p w =
     (let n = length (attempts w); w' = emit (Inserted p) w
      in case c n p of
           None \<Rightarrow> (Inr (), w')
         | Some error \<Rightarrow>
             if is_Exception error
             then (Inl (RuntimeError (''Insert failed: '' @ str_exn error) (Some error)), w')
             else (Inl error, w'))"

text \<open>
  The body of the \<^verbatim>\<open>while\<close> loop of \<open>run_writer\<close> (lines 157 to 161); it returns the
  incremented \<open>sequence\<close>.
\<close>

definition loop_body :: "client \<Rightarrow> string \<Rightarrow> pyfloat \<Rightarrow> string \<Rightarrow> int \<Rightarrow> world \<Rightarrow> int result \<times> world" where
  "loop_body c name secs rid seq w =
     (case build_log_payload name rid seq w of
        (Inl e, w1) \<Rightarrow> (Inl e, w1)
      | (Inr p, w1) \<Rightarrow>
          (case insert_log c p w1 of
             (Inl e, w2) \<Rightarrow> (Inl e, w2)
           | (Inr _, w2) \<Rightarrow>
               (let w3 = print (''Inserted log '' @ str_int seq @ '' for '' @ name) w2;
                    seq' = seq + 1
                in case sleep secs w3 of
                     (Inl e, w4) \<Rightarrow> (Inl e, w4)
                   | (Inr _, w4) \<Rightarrow> (Inr seq', w4))))"

text \<open>
  The loop itself. In follow mode it need not end, so the model takes fuel, one unit per
  iteration: \<open>None\<close> says that the loop is still running when the fuel is used up, and the
  world returned with it is the world reached so far.
\<close>

fun run_loop :: "nat \<Rightarrow> client \<Rightarrow> string \<Rightarrow> int \<Rightarrow> pyfloat \<Rightarrow> bool \<Rightarrow> string \<Rightarrow> int \<Rightarrow> world
    \<Rightarrow> unit result option \<times> world" where
  "run_loop fuel c name cnt secs flw rid seq w =
     (if flw \<or> seq \<le> cnt then
        (case fuel of
           0 \<Rightarrow> (None, w)
         | Suc fuel' \<Rightarrow>
             (case loop_body c name secs rid seq w of
                (Inl e, w') \<Rightarrow> (Some (Inl e), w')
              | (Inr seq', w') \<Rightarrow> run_loop fuel' c name cnt secs flw rid seq' w'))
      else (Some (Inr ()), w))"

definition run_writer :: "nat \<Rightarrow> client \<Rightarrow> string \<Rightarrow> int \<Rightarrow> pyfloat \<Rightarrow> bool \<Rightarrow> world
    \<Rightarrow> unit result option \<times> world" where
  "run_writer fuel c name cnt secs flw w =
     (let (rid, w1) = uuid4 w in run_loop fuel c name cnt secs flw rid 1 w1)"

text \<open>
  \<open>main\<close>, after \<open>parse_args\<close> has returned \<open>a\<close>; \<open>create_client\<close> is the third-party
  constructor, which may raise.
\<close>

definition main :: "nat \<Rightarrow> (string \<Rightarrow> string \<Rightarrow> client result) \<Rightarrow> args \<Rightarrow> world
    \<Rightarrow> unit result option \<times> world" where
  "main fuel create_client a w =
     (case load_config w of
        Inl e \<Rightarrow> (Some (Inl e), w)
      | Inr (url, key) \<Rightarrow>
          (case create_client url key of
             Inl e \<Rightarrow> (Some (Inl e), w)
           | Inr c \<Rightarrow>
               (case run_writer fuel c (script a) (count a) (interval a) (follow a) w of
                  (Some (Inl KeyboardInterrupt), w') \<Rightarrow> (Some (Inr ()), print ''Log writer stopped.'' w')
                | r \<Rightarrow> r)))"

section \<open>Sample inputs\<close>

text \<open>A configured environment in which no interrupt is ever delivered.\<close>

definition quiet_world :: world where
  "quiet_world =
     \<lparr>environ = [''SUPABASE_URL'' \<mapsto> ''http://localhost:54321'',
                  ''SUPABASE_SERVICE_ROLE_KEY'' \<mapsto> ''service-key''],
      randbits = (\<lambda>n. 7 * n + 3), rand_pos = 0,
      uuids = (\<lambda>n. ''run-'' @ str_nat n), uuid_pos = 0,
      sigint = (\<lambda>n. False), trace = []\<rparr>"

text \<open>An insertion capability that accepts every record.\<close>

definition ok_client :: client where
  "ok_client = (\<lambda>n p. None)"

text \<open>The command line's defaults.\<close>

definition default_args :: args where
  "default_args = \<lparr>script = ''demo-script'', count = 20, interval = Finite 1, follow = False\<rparr>"

text \<open>The record that \<open>quiet_world\<close>'s first three draws give.\<close>

definition first_payload :: payload where
  "first_payload =
     \<lparr>script_name = ''demo-script'', level = ''error'', message = ''Fetching upstream payload'',
      metadata = \<lparr>run_id = ''r'', sequence = 1, execution_ms = 62\<rparr>\<rparr>"

section \<open>The shape of a trace\<close>

text \<open>
  An event without the random fields of its record: what remains is the script name, the
  run id and the sequence number of an insertion, the text of a confirmation, the
  length of a delay.
\<close>

datatype step = Insert string string int | Print string | Sleep real




text \<open>
  The record that the next call of \<open>build_log_payload\<close> returns in a world, and the
  record that iteration \<open>i\<close> (counted from 0) of a loop started in \<open>w\<close> at \<open>seq\<close> builds when
  the iterations before it have built theirs: each construction takes three draws.
\<close>

definition next_record :: "string \<Rightarrow> string \<Rightarrow> int \<Rightarrow> world \<Rightarrow> payload" where
  "next_record name rid seq w = projr (fst (build_log_payload name rid seq w))"

definition record_at :: "string \<Rightarrow> string \<Rightarrow> int \<Rightarrow> world \<Rightarrow> nat \<Rightarrow> payload" where
  "record_at name rid seq w i =
     next_record name rid (seq + int i) (w\<lparr>rand_pos := rand_pos w + 3 * i\<rparr>)"




section \<open>Basic facts about the operations\<close>

declare run_loop.simps [simp del]

declare str_nat.simps [simp del]

lemma attempts_of_append: "attempts_of (xs @ ys) = attempts_of xs @ attempts_of ys"
  by (induction xs rule: attempts_of.induct) simp_all


lemma build_log_payload_ok:
  assumes "name \<noteq> []"
  shows "build_log_payload name rid seq w =
    (Inr \<lparr>script_name = name,
          level = LOG_LEVELS ! (randbits w (rand_pos w) mod 4),
          message = LOG_MESSAGES ! (randbits w (rand_pos w + 1) mod 8),
          metadata = \<lparr>run_id = rid, sequence = seq,
                      execution_ms = 45 + int (randbits w (rand_pos w + 2) mod 1356)\<rparr>\<rparr>,
     w\<lparr>rand_pos := rand_pos w + 3\<rparr>)"
  using assms
  by (simp add: build_log_payload_def choice_def randint_def randbelow_def
      LOG_LEVELS_def LOG_MESSAGES_def)

lemma build_log_payload_empty:
  "build_log_payload [] rid seq w = (Inl (ValueError ''script_name is required''), w)"
  by (simp add: build_log_payload_def)

text \<open>What one construction leaves of the world, and what it puts in the record.\<close>

lemma build_log_payload_world:
  assumes "build_log_payload name rid seq w = (r, w1)"
  shows "trace w1 = trace w \<and> sigint w1 = sigint w"
proof (cases "name = []")
  case True
  with assms show ?thesis by (simp add: build_log_payload_empty)
next
  case False
  with assms show ?thesis by (auto simp: build_log_payload_ok)
qed

lemma build_log_payload_fields:
  assumes "build_log_payload name rid seq w = (Inr p, w1)"
  shows "script_name p = name \<and> run_id (metadata p) = rid \<and> sequence (metadata p) = seq"
proof (cases "name = []")
  case True
  with assms show ?thesis by (simp add: build_log_payload_empty)
next
  case False
  with assms show ?thesis by (auto simp: build_log_payload_ok)
qed

lemma insert_log_world:
  assumes "insert_log c p w = (r, w')"
  shows "trace w' = trace w @ [Inserted p] \<and> sigint w' = sigint w"
  using assms
  by (auto simp: insert_log_def emit_def Let_def split: option.splits if_splits)

lemma insert_log_None:
  assumes "c (length (attempts w)) p = None"
  shows "insert_log c p w = (Inr (), emit (Inserted p) w)"
  using assms by (simp add: insert_log_def)


lemma sleep_world:
  assumes "sleep secs w = (r, w')"
  shows "sigint w' = sigint w \<and>
         (trace w' = trace w \<and> (\<exists>e. r = Inl e) \<or> (\<exists>d. trace w' = trace w @ [Slept d]))"
  using assms
  by (cases secs) (auto simp: sleep_def emit_def Let_def split: if_splits)



text \<open>One iteration, whatever its outcome: at most one attempt, for the current sequence.\<close>

lemma loop_body_attempts:
  assumes "loop_body c name secs rid seq w = (r, w')"
  shows "\<exists>evs. trace w' = trace w @ evs \<and> sigint w' = sigint w \<and>
           (attempts_of evs = [] \<and> (\<exists>e. r = Inl e) \<or>
            (\<exists>p. attempts_of evs = [p] \<and> script_name p = name \<and> run_id (metadata p) = rid \<and> sequence (metadata p) = seq \<and>
                 (r = Inr (seq + 1) \<or> (\<exists>e. r = Inl e))))"
proof (cases "build_log_payload name rid seq w")
  case (Pair b w1)
  note B = build_log_payload_world [OF Pair]
  show ?thesis
  proof (cases b)
    case (Inl e)
    with Pair assms B show ?thesis by (auto simp: loop_body_def)
  next
    case (Inr p)
    note F = build_log_payload_fields [OF Pair [unfolded Inr]]
    obtain i w2 where I: "insert_log c p w1 = (i, w2)" by (cases "insert_log c p w1")
    note IW = insert_log_world [OF I]
    show ?thesis
    proof (cases i)
      case (Inl e)
      with Pair Inr I assms B F IW show ?thesis by (auto simp: loop_body_def)
    next
      case (Inr u)
      let ?w3 = "print (''Inserted log '' @ str_int seq @ '' for '' @ name) w2"
      obtain s w4 where S: "sleep secs ?w3 = (s, w4)" by (cases "sleep secs ?w3")
      note SW = sleep_world [OF S]
      have T3: "trace ?w3 = trace w @ [Inserted p, Printed (''Inserted log '' @ str_int seq @ '' for '' @ name)]"
        and G3: "sigint ?w3 = sigint w"
        using IW B by (simp_all add: print_def emit_def)
      from assms Pair \<open>b = Inr p\<close> I Inr S
      have R: "w' = w4 \<and> r = (case s of Inl e \<Rightarrow> Inl e | Inr _ \<Rightarrow> Inr (seq + 1))"
        by (auto simp: loop_body_def Let_def split: sum.splits)
      from SW T3 G3 R F show ?thesis
        by (cases s) (auto simp: attempts_of_append)
    qed
  qed
qed

section \<open>Configuration loading\<close>

lemma load_config_Inr_iff:
  "load_config w = Inr (u, k) \<longleftrightarrow>
     environ w ''SUPABASE_URL'' = Some u \<and> environ w ''SUPABASE_SERVICE_ROLE_KEY'' = Some k \<and>
     u \<noteq> [] \<and> k \<noteq> []"
  by (cases "environ w ''SUPABASE_URL''"; cases "environ w ''SUPABASE_SERVICE_ROLE_KEY''")
     (auto simp: load_config_def getenv_def Let_def)

lemma load_config_Inl:
  "load_config w = Inl e \<Longrightarrow>
     e = RuntimeError ''Missing SUPABASE_URL or SUPABASE_SERVICE_ROLE_KEY in env.'' None"
  by (auto simp: load_config_def getenv_def Let_def split: if_splits)

text \<open>
  Claim C10. \<open>load_config\<close> returns the pair \<open>(url, key)\<close> if and only if both
  \<open>SUPABASE_URL\<close> and \<open>SUPABASE_SERVICE_ROLE_KEY\<close> are set to non-empty strings; in every
  other case, a variable set to the empty string included, it raises the configuration
  error.
\<close>

theorem load_config_rejects_empty:
  "(load_config w = Inr (u, k) \<longleftrightarrow>
      environ w ''SUPABASE_URL'' = Some u \<and> environ w ''SUPABASE_SERVICE_ROLE_KEY'' = Some k \<and>
      u \<noteq> [] \<and> k \<noteq> []) \<and>
   ((\<forall>u' k'. load_config w \<noteq> Inr (u', k')) \<longrightarrow>
      load_config w =
        Inl (RuntimeError ''Missing SUPABASE_URL or SUPABASE_SERVICE_ROLE_KEY in env.'' None))"
proof (intro conjI impI)
  show "load_config w = Inr (u, k) \<longleftrightarrow>
      environ w ''SUPABASE_URL'' = Some u \<and> environ w ''SUPABASE_SERVICE_ROLE_KEY'' = Some k \<and>
      u \<noteq> [] \<and> k \<noteq> []"
    by (rule load_config_Inr_iff)
next
  assume N: "\<forall>u' k'. load_config w \<noteq> Inr (u', k')"
  show "load_config w =
      Inl (RuntimeError ''Missing SUPABASE_URL or SUPABASE_SERVICE_ROLE_KEY in env.'' None)"
  proof (cases "load_config w")
    case (Inl e)
    then show ?thesis using load_config_Inl by simp
  next
    case (Inr p)
    with N show ?thesis by (cases p) simp
  qed
qed

text \<open>With \<open>SUPABASE_URL\<close> set to the empty string and the key present, loading fails.\<close>

theorem load_config_rejects_empty_witness:
  "(\<forall>u' k'. load_config (quiet_world\<lparr>environ := (environ quiet_world)(''SUPABASE_URL'' \<mapsto> [])\<rparr>)
       \<noteq> Inr (u', k')) \<and>
   load_config (quiet_world\<lparr>environ := (environ quiet_world)(''SUPABASE_URL'' \<mapsto> [])\<rparr>) =
     Inl (RuntimeError ''Missing SUPABASE_URL or SUPABASE_SERVICE_ROLE_KEY in env.'' None)"
  using load_config_rejects_empty
    [of "quiet_world\<lparr>environ := (environ quiet_world)(''SUPABASE_URL'' \<mapsto> [])\<rparr>" "[]" "[]"]
  by (simp add: quiet_world_def load_config_def getenv_def)

section \<open>The loop, one unfolding at a time\<close>

lemma run_writer_unfold:
  "run_writer fuel c name cnt secs flw w =
     run_loop fuel c name cnt secs flw (uuids w (uuid_pos w)) 1 (w\<lparr>uuid_pos := uuid_pos w + 1\<rparr>)"
  by (simp add: run_writer_def uuid4_def)

lemma run_loop_exit:
  "\<not> flw \<Longrightarrow> cnt < seq \<Longrightarrow> run_loop fuel c name cnt secs flw rid seq w = (Some (Inr ()), w)"
  by (simp add: run_loop.simps)

lemma run_loop_step:
  "flw \<or> seq \<le> cnt \<Longrightarrow>
   run_loop (Suc fuel) c name cnt secs flw rid seq w =
     (case loop_body c name secs rid seq w of
        (Inl e, w') \<Rightarrow> (Some (Inl e), w')
      | (Inr seq', w') \<Rightarrow> run_loop fuel c name cnt secs flw rid seq' w')"
  by (subst run_loop.simps) simp

lemma run_loop_no_fuel:
  "flw \<or> seq \<le> cnt \<Longrightarrow> run_loop 0 c name cnt secs flw rid seq w = (None, w)"
  by (subst run_loop.simps) simp

lemma loop_body_empty_name:
  "loop_body c [] secs rid seq w = (Inl (ValueError ''script_name is required''), w)"
  by (simp add: loop_body_def build_log_payload_empty)

lemma run_loop_empty_name_trace:
  "trace (snd (run_loop fuel c [] cnt secs flw rid seq w)) = trace w"
proof (cases "flw \<or> seq \<le> cnt")
  case True
  then show ?thesis
    by (cases fuel) (simp_all add: run_loop_no_fuel run_loop_step loop_body_empty_name)
next
  case False
  then show ?thesis by (simp add: run_loop_exit)
qed

section \<open>Payload construction\<close>

text \<open>
  Claim C7. Every payload that \<open>build_log_payload\<close> produces has its random fields in
  their domains: the level is one of debug, info, warning, error; the message is one of
  the eight templates; \<open>execution_ms\<close> lies between 45 and 1400, both included.
\<close>

theorem build_log_payload_domains:
  assumes "build_log_payload name rid seq w = (Inr p, w')"
  shows "level p \<in> {''debug'', ''info'', ''warning'', ''error''} \<and>
         message p \<in> {''Starting scheduled task'', ''Loading configuration'',
                        ''Fetching upstream payload'', ''Transforming dataset'',
                        ''Completed batch successfully'', ''Retrying after transient failure'',
                        ''Writing output artifacts'', ''Heartbeat check''} \<and>
         45 \<le> execution_ms (metadata p) \<and> execution_ms (metadata p) \<le> 1400"
proof (cases "name = []")
  case True
  with assms show ?thesis by (simp add: build_log_payload_empty)
next
  case False
  let ?i = "randbits w (rand_pos w) mod 4"
  let ?j = "randbits w (rand_pos w + 1) mod 8"
  let ?k = "randbits w (rand_pos w + 2) mod 1356"
  from assms False have L: "level p = LOG_LEVELS ! ?i" and M: "message p = LOG_MESSAGES ! ?j"
    and E: "execution_ms (metadata p) = 45 + int ?k"
    by (auto simp: build_log_payload_ok)
  have "?i < length LOG_LEVELS" by (simp add: LOG_LEVELS_def)
  then have "LOG_LEVELS ! ?i \<in> set LOG_LEVELS" by (rule nth_mem)
  then have 1: "level p \<in> {''debug'', ''info'', ''warning'', ''error''}"
    using L by (simp add: LOG_LEVELS_def)
  have "?j < length LOG_MESSAGES" by (simp add: LOG_MESSAGES_def)
  then have "LOG_MESSAGES ! ?j \<in> set LOG_MESSAGES" by (rule nth_mem)
  then have 2: "message p \<in> {''Starting scheduled task'', ''Loading configuration'',
                        ''Fetching upstream payload'', ''Transforming dataset'',
                        ''Completed batch successfully'', ''Retrying after transient failure'',
                        ''Writing output artifacts'', ''Heartbeat check''}"
    using M by (simp add: LOG_MESSAGES_def)
  have "?k < 1356" by simp
  then have 3: "45 \<le> execution_ms (metadata p) \<and> execution_ms (metadata p) \<le> 1400"
    using E by linarith
  from 1 2 3 show ?thesis by blast
qed

text \<open>The first record built in \<open>quiet_world\<close>: level error, 62 milliseconds.\<close>

theorem build_log_payload_domains_witness:
  "build_log_payload ''demo-script'' ''r'' 1 quiet_world =
     (Inr first_payload, quiet_world\<lparr>rand_pos := 3\<rparr>) \<and>
   level first_payload = ''error'' \<and>
   45 \<le> execution_ms (metadata first_payload) \<and> execution_ms (metadata first_payload) \<le> 1400"
proof -
  have h: "build_log_payload ''demo-script'' ''r'' 1 quiet_world =
     (Inr first_payload, quiet_world\<lparr>rand_pos := 3\<rparr>)"
    by (simp add: build_log_payload_ok quiet_world_def first_payload_def
        LOG_LEVELS_def LOG_MESSAGES_def)
  have l: "level first_payload = ''error''" by (simp add: first_payload_def)
  from build_log_payload_domains [OF h] h l show ?thesis by blast
qed

text \<open>
  Claim C5. \<open>build_log_payload\<close> fails exactly when \<open>script_name\<close> is empty. In the loop
  an empty name makes no insertion attempt at all, and as soon as the loop is entered
  the run ends with the validation error.
\<close>

theorem build_log_payload_fails_iff_empty:
  "((\<exists>e. fst (build_log_payload name rid seq w) = Inl e) \<longleftrightarrow> name = []) \<and>
   attempts (snd (run_writer fuel c [] cnt secs flw w)) = attempts w \<and>
   (flw \<or> 1 \<le> cnt \<longrightarrow>
      fst (run_writer (Suc fuel) c [] cnt secs flw w) =
        Some (Inl (ValueError ''script_name is required'')))"
proof (intro conjI impI)
  show "(\<exists>e. fst (build_log_payload name rid seq w) = Inl e) \<longleftrightarrow> name = []"
    by (cases "name = []") (simp_all add: build_log_payload_empty build_log_payload_ok)
next
  show "attempts (snd (run_writer fuel c [] cnt secs flw w)) = attempts w"
    by (simp add: run_writer_unfold attempts_def run_loop_empty_name_trace)
next
  assume "flw \<or> 1 \<le> cnt"
  then show "fst (run_writer (Suc fuel) c [] cnt secs flw w) =
        Some (Inl (ValueError ''script_name is required''))"
    by (simp add: run_writer_unfold run_loop_step loop_body_empty_name)
qed

text \<open>An empty name with the default count of 20: the error, and nothing inserted.\<close>

theorem build_log_payload_fails_iff_empty_witness:
  "(1::int) \<le> 20 \<and>
   fst (run_writer (Suc 0) ok_client [] 20 (Finite 1) False quiet_world) =
     Some (Inl (ValueError ''script_name is required'')) \<and>
   attempts (snd (run_writer (Suc 0) ok_client [] 20 (Finite 1) False quiet_world)) = []"
  using build_log_payload_fails_iff_empty [of "[]" "[]" 1 quiet_world "Suc 0" ok_client 20 "Finite 1" False]
    build_log_payload_fails_iff_empty [of "[]" "[]" 1 quiet_world 0 ok_client 20 "Finite 1" False]
  by (simp add: attempts_def quiet_world_def)

section \<open>Counts below zero\<close>

text \<open>
  Claim C9. With \<open>follow\<close> false and a negative count, \<open>run_writer\<close> makes no insertion
  attempt and returns normally, whatever the fuel, exactly as with count 0: the loop
  condition \<open>sequence \<le> count\<close> is false at \<open>sequence = 1\<close>.
\<close>

theorem run_writer_negative_count:
  assumes "cnt < 0"
  shows "fst (run_writer fuel c name cnt secs False w) = Some (Inr ()) \<and>
         trace (snd (run_writer fuel c name cnt secs False w)) = trace w \<and>
         attempts (snd (run_writer fuel c name cnt secs False w)) = attempts w \<and>
         run_writer fuel c name cnt secs False w = run_writer fuel c name 0 secs False w"
  using assms by (simp add: run_writer_unfold run_loop_exit attempts_def)

theorem run_writer_negative_count_witness:
  "(-3::int) < 0 \<and>
   fst (run_writer 0 ok_client ''demo-script'' (-3) (Finite 1) False quiet_world) = Some (Inr ()) \<and>
   attempts (snd (run_writer 0 ok_client ''demo-script'' (-3) (Finite 1) False quiet_world)) =
     attempts quiet_world"
proof -
  have h: "(-3::int) < 0" by simp
  from run_writer_negative_count [OF h, of 0 ok_client "''demo-script''" "Finite 1" quiet_world] h
  show ?thesis by blast
qed

section \<open>Missing configuration\<close>

text \<open>
  Claim C6. When \<open>SUPABASE_URL\<close> or \<open>SUPABASE_SERVICE_ROLE_KEY\<close> is missing from the
  environment, \<open>main\<close> raises the configuration error with the world untouched: no client
  is created, no loop iteration runs, nothing is inserted. The message of the error
  contains the names of both variables.
\<close>

theorem main_missing_config:
  assumes "environ w ''SUPABASE_URL'' = None \<or> environ w ''SUPABASE_SERVICE_ROLE_KEY'' = None"
  shows "\<exists>msg. main fuel create_client a w = (Some (Inl (RuntimeError msg None)), w) \<and>
           (\<exists>pre suf. msg = pre @ ''SUPABASE_URL'' @ suf) \<and>
           (\<exists>pre suf. msg = pre @ ''SUPABASE_SERVICE_ROLE_KEY'' @ suf)"
proof -
  let ?msg = "''Missing SUPABASE_URL or SUPABASE_SERVICE_ROLE_KEY in env.''"
  from assms have "load_config w = Inl (RuntimeError ?msg None)"
    by (auto simp: load_config_def getenv_def)
  then have 1: "main fuel create_client a w = (Some (Inl (RuntimeError ?msg None)), w)"
    by (simp add: main_def)
  have 2: "?msg = ''Missing '' @ ''SUPABASE_URL'' @ '' or SUPABASE_SERVICE_ROLE_KEY in env.''"
    by simp
  have 3: "?msg = ''Missing SUPABASE_URL or '' @ ''SUPABASE_SERVICE_ROLE_KEY'' @ '' in env.''"
    by simp
  from 1 2 3 show ?thesis by blast
qed

text \<open>The service key removed from an otherwise configured environment.\<close>

theorem main_missing_config_witness:
  "environ (quiet_world\<lparr>environ := (environ quiet_world)(''SUPABASE_SERVICE_ROLE_KEY'' := None)\<rparr>)
      ''SUPABASE_SERVICE_ROLE_KEY'' = None \<and>
   (\<exists>msg. main 5 (\<lambda>u k. Inr ok_client) default_args
        (quiet_world\<lparr>environ := (environ quiet_world)(''SUPABASE_SERVICE_ROLE_KEY'' := None)\<rparr>) =
      (Some (Inl (RuntimeError msg None)),
       quiet_world\<lparr>environ := (environ quiet_world)(''SUPABASE_SERVICE_ROLE_KEY'' := None)\<rparr>))"
  using main_missing_config
    [of "quiet_world\<lparr>environ := (environ quiet_world)(''SUPABASE_SERVICE_ROLE_KEY'' := None)\<rparr>"
        5 "\<lambda>u k. Inr ok_client" default_args]
  by auto

section \<open>Single iterations\<close>




lemma trace_emit: "trace (emit e w) = trace w @ [e]"
  by (simp add: emit_def)


text \<open>The record of the next construction, and what it depends on.\<close>

lemma build_next_record:
  assumes "name \<noteq> []"
  shows "build_log_payload name rid seq w =
           (Inr (next_record name rid seq w), w\<lparr>rand_pos := rand_pos w + 3\<rparr>)"
  using assms by (simp add: next_record_def build_log_payload_ok)


lemma next_record_cong:
  assumes "randbits w1 = randbits w2" and "rand_pos w1 = rand_pos w2"
  shows "next_record name rid seq w1 = next_record name rid seq w2"
  using assms
  by (cases "name = []")
     (simp_all add: next_record_def build_log_payload_empty build_log_payload_ok)

lemma record_at_0: "record_at name rid seq w 0 = next_record name rid seq w"
proof -
  have "next_record name rid seq (w\<lparr>rand_pos := rand_pos w + 3 * 0\<rparr>) = next_record name rid seq w"
    by (intro next_record_cong) simp_all
  then show ?thesis by (simp add: record_at_def)
qed


lemma record_at_cong:
  assumes "randbits w1 = randbits w2" and "rand_pos w1 = rand_pos w2"
  shows "record_at name rid seq w1 i = record_at name rid seq w2 i"
  unfolding record_at_def using assms by (intro next_record_cong) simp_all





text \<open>An iteration whose delay \<open>time.sleep\<close> rejects: the record is inserted and confirmed.\<close>

lemma loop_body_delay_rejected:
  assumes "name \<noteq> []" and "c (length (attempts w)) (next_record name rid seq w) = None"
    and "\<forall>v. sleep secs v = (Inl e, v)"
  shows "\<exists>w'. loop_body c name secs rid seq w = (Inl e, w') \<and>
           trace w' = trace w @ [Inserted (next_record name rid seq w),
             Printed (''Inserted log '' @ str_int seq @ '' for '' @ name)]"
proof -
  let ?p = "next_record name rid seq w"
  let ?w1 = "w\<lparr>rand_pos := rand_pos w + 3\<rparr>"
  have B: "build_log_payload name rid seq w = (Inr ?p, ?w1)"
    using assms(1) by (rule build_next_record)
  have A1: "attempts ?w1 = attempts w" by (simp add: attempts_def)
  have I: "insert_log c ?p ?w1 = (Inr (), emit (Inserted ?p) ?w1)"
    using assms(2) A1 by (simp add: insert_log_None)
  let ?w3 = "print (''Inserted log '' @ str_int seq @ '' for '' @ name) (emit (Inserted ?p) ?w1)"
  have S: "sleep secs ?w3 = (Inl e, ?w3)" using assms(3) by simp
  have L: "loop_body c name secs rid seq w = (Inl e, ?w3)"
    using B I S by (simp add: loop_body_def)
  have T: "trace ?w3 =
      trace w @ [Inserted ?p, Printed (''Inserted log '' @ str_int seq @ '' for '' @ name)]"
    by (simp add: print_def trace_emit)
  show ?thesis by (intro exI [of _ ?w3] conjI L T)
qed

lemma sleep_negative:
  assumes "d < 0" and "- 9223372036 \<le> d"
  shows "sleep (Finite d) v = (Inl (ValueError ''sleep length must be non-negative''), v)"
proof -
  define k where "k = nanoseconds d"
  have n: "k = \<lfloor>d * 1000000000\<rfloor>" using assms(1) by (simp add: k_def nanoseconds_def)
  have "d * 1000000000 < 0" using assms(1) by simp
  then have "\<lfloor>d * 1000000000\<rfloor> < 0" by (simp only: floor_less_iff of_int_0)
  then have 1: "k < 0" by (simp only: n)
  have "of_int (- 9223372036000000000) \<le> d * 1000000000" using assms(2) by simp
  then have "- 9223372036000000000 \<le> \<lfloor>d * 1000000000\<rfloor>" by (simp only: le_floor_iff)
  then have 2: "- 9223372036000000000 \<le> k" by (simp only: n)
  have f: "fits_PyTime k" using 1 2 by (simp add: fits_PyTime_def)
  show ?thesis using f 1 unfolding k_def by (simp add: sleep_def)
qed

lemma sleep_too_long:
  assumes "9223372037 \<le> d"
  shows "sleep (Finite d) v =
           (Inl (OverflowError ''timestamp too large to convert to C _PyTime_t''), v)"
proof -
  define k where "k = nanoseconds d"
  have n: "k = \<lceil>d * 1000000000\<rceil>" using assms by (simp add: k_def nanoseconds_def)
  have "of_int 9223372036999999999 < d * 1000000000" using assms by simp
  then have "9223372036999999999 < \<lceil>d * 1000000000\<rceil>"
    by (simp only: less_ceiling_iff)
  then have "9223372036999999999 < k" by (simp only: n)
  then have "\<not> fits_PyTime k" by (simp add: fits_PyTime_def)
  then show ?thesis unfolding k_def by (simp add: sleep_def)
qed

section \<open>Runs of successful iterations\<close>



section \<open>Run id and sequence numbers\<close>

lemma upto_from_1: "map (\<lambda>i. 1 + int i) [0..<n] = [1..int n]"
proof (induction n)
  case 0
  show ?case by simp
next
  case (Suc n)
  have "[1..int (Suc n)] = [1..int n] @ [int n + 1]"
    using upto_rec2 [of 1 "int (Suc n)"] by (simp add: add.commute)
  with Suc show ?case by (simp add: add.commute)
qed

lemma run_loop_sequences:
  "\<exists>ps. attempts (snd (run_loop fuel c name cnt secs flw rid seq w)) = attempts w @ ps \<and>
        map (\<lambda>p. sequence (metadata p)) ps = map (\<lambda>i. seq + int i) [0..<length ps] \<and>
        map (\<lambda>p. run_id (metadata p)) ps = replicate (length ps) rid"
proof (induction fuel arbitrary: seq w)
  case 0
  have "snd (run_loop 0 c name cnt secs flw rid seq w) = w"
    by (cases "flw \<or> seq \<le> cnt") (simp_all add: run_loop_no_fuel run_loop_exit)
  then show ?case by simp
next
  case (Suc fuel)
  show ?case
  proof (cases "flw \<or> seq \<le> cnt")
    case False
    then have "snd (run_loop (Suc fuel) c name cnt secs flw rid seq w) = w"
      by (simp add: run_loop_exit)
    then show ?thesis by simp
  next
    case True
    obtain rb wb where L: "loop_body c name secs rid seq w = (rb, wb)"
      by (cases "loop_body c name secs rid seq w")
    from loop_body_attempts [OF L] obtain evs where
      T: "trace wb = trace w @ evs" and
      D: "attempts_of evs = [] \<and> (\<exists>e. rb = Inl e) \<or>
          (\<exists>p. attempts_of evs = [p] \<and> script_name p = name \<and> run_id (metadata p) = rid \<and>
               sequence (metadata p) = seq \<and> (rb = Inr (seq + 1) \<or> (\<exists>e. rb = Inl e)))"
      by blast
    have A: "attempts wb = attempts w @ attempts_of evs"
      using T by (simp add: attempts_def attempts_of_append)
    show ?thesis
    proof (cases rb)
      case (Inl e)
      then have R: "snd (run_loop (Suc fuel) c name cnt secs flw rid seq w) = wb"
        using True L by (simp add: run_loop_step)
      from D show ?thesis
      proof
        assume "attempts_of evs = [] \<and> (\<exists>e. rb = Inl e)"
        then show ?thesis using R A by simp
      next
        assume "\<exists>p. attempts_of evs = [p] \<and> script_name p = name \<and> run_id (metadata p) = rid \<and>
               sequence (metadata p) = seq \<and> (rb = Inr (seq + 1) \<or> (\<exists>e. rb = Inl e))"
        then obtain p where "attempts_of evs = [p]" "run_id (metadata p) = rid"
          "sequence (metadata p) = seq" by blast
        then show ?thesis using R A by simp
      qed
    next
      case (Inr s)
      with D obtain p where P: "attempts_of evs = [p]" "run_id (metadata p) = rid"
          "sequence (metadata p) = seq" and S: "s = seq + 1"
        by auto
      have R: "run_loop (Suc fuel) c name cnt secs flw rid seq w =
          run_loop fuel c name cnt secs flw rid (seq + 1) wb"
        using True L Inr S by (simp add: run_loop_step)
      from Suc.IH [of "seq + 1" wb] obtain ps where
        I1: "attempts (snd (run_loop fuel c name cnt secs flw rid (seq + 1) wb)) = attempts wb @ ps" and
        I2: "map (\<lambda>p. sequence (metadata p)) ps = map (\<lambda>i. seq + 1 + int i) [0..<length ps]" and
        I3: "map (\<lambda>p. run_id (metadata p)) ps = replicate (length ps) rid"
        by blast
      have U: "[0..<Suc (length ps)] = 0 # map Suc [0..<length ps]"
        by (simp add: upt_conv_Cons map_Suc_upt del: upt_Suc)
      have 1: "attempts (snd (run_loop (Suc fuel) c name cnt secs flw rid seq w)) = attempts w @ (p # ps)"
        using R I1 A P by simp
      have 2: "map (\<lambda>p. sequence (metadata p)) (p # ps) = map (\<lambda>i. seq + int i) [0..<length (p # ps)]"
        using I2 P U by (simp add: o_def add.assoc del: upt_Suc)
      have 3: "map (\<lambda>p. run_id (metadata p)) (p # ps) = replicate (length (p # ps)) rid"
        using I3 P by simp
      from 1 2 3 show ?thesis by blast
    qed
  qed
qed

text \<open>
  Claim C2. In one execution of \<open>run_writer\<close>, whatever the client, the mode, the fuel
  and the way the run ends, the records handed to the insertion capability all carry the
  run id drawn at the start, and their sequence numbers are 1, 2, 3, ... in this order.
\<close>

theorem run_writer_run_id_and_sequence:
  "\<exists>ps. attempts (snd (run_writer fuel c name cnt secs flw w)) = attempts w @ ps \<and>
        map (\<lambda>p. run_id (metadata p)) ps = replicate (length ps) (uuids w (uuid_pos w)) \<and>
        map (\<lambda>p. sequence (metadata p)) ps = [1..int (length ps)]"
proof -
  let ?w0 = "w\<lparr>uuid_pos := uuid_pos w + 1\<rparr>"
  from run_loop_sequences [of fuel c name cnt secs flw "uuids w (uuid_pos w)" 1 ?w0]
  obtain ps where
    1: "attempts (snd (run_loop fuel c name cnt secs flw (uuids w (uuid_pos w)) 1 ?w0)) = attempts ?w0 @ ps" and
    2: "map (\<lambda>p. sequence (metadata p)) ps = map (\<lambda>i. 1 + int i) [0..<length ps]" and
    3: "map (\<lambda>p. run_id (metadata p)) ps = replicate (length ps) (uuids w (uuid_pos w))"
    by blast
  have "attempts ?w0 = attempts w" by (simp add: attempts_def)
  with 1 have 4: "attempts (snd (run_writer fuel c name cnt secs flw w)) = attempts w @ ps"
    by (simp add: run_writer_unfold)
  from 2 have 5: "map (\<lambda>p. sequence (metadata p)) ps = [1..int (length ps)]"
    by (simp add: upto_from_1)
  from 4 3 5 show ?thesis by blast
qed

text \<open>Three iterations in follow mode, then out of fuel.\<close>

theorem run_writer_run_id_and_sequence_witness:
  "\<exists>ps. attempts (snd (run_writer 3 ok_client ''demo-script'' 20 (Finite 1) True quiet_world)) =
          attempts quiet_world @ ps \<and>
        map (\<lambda>p. run_id (metadata p)) ps =
          replicate (length ps) (uuids quiet_world (uuid_pos quiet_world)) \<and>
        map (\<lambda>p. sequence (metadata p)) ps = [1..int (length ps)]"
  by (rule run_writer_run_id_and_sequence)

section \<open>Unhindered runs\<close>

lemma uuid_step_obs:
  "attempts (w\<lparr>uuid_pos := n\<rparr>) = attempts w"
  "sleeps (w\<lparr>uuid_pos := n\<rparr>) = sleeps w"
  by (simp_all add: attempts_def sleeps_def)

lemma uuid_step_record:
  "record_at name rid seq (w\<lparr>uuid_pos := n\<rparr>) i = record_at name rid seq w i"
  by (intro record_at_cong) simp_all




text \<open>
  Outside the contract of the loop: a delay that \<open>time.sleep\<close> rejects, negative or too
  long, ends the run in its first iteration, after one insertion.
\<close>

lemma run_writer_delay_rejected:
  assumes "name \<noteq> []" and "\<forall>v. sleep secs v = (Inl e, v)"
    and "c (length (attempts w)) (record_at name (uuids w (uuid_pos w)) 1 w 0) = None"
    and "flw \<or> 1 \<le> cnt"
  shows "\<exists>w'. run_writer (Suc fuel) c name cnt secs flw w = (Some (Inl e), w') \<and>
           length (attempts w') = length (attempts w) + 1"
proof -
  let ?w0 = "w\<lparr>uuid_pos := uuid_pos w + 1\<rparr>"
  let ?rid = "uuids w (uuid_pos w)"
  have "record_at name ?rid 1 ?w0 0 = next_record name ?rid 1 ?w0"
    by (rule record_at_0)
  then have "record_at name ?rid 1 w 0 = next_record name ?rid 1 ?w0"
    by (simp only: uuid_step_record)
  then have c0: "c (length (attempts ?w0)) (next_record name ?rid 1 ?w0) = None"
    using assms(3) by (simp add: uuid_step_obs)
  obtain w' where
    L: "loop_body c name secs ?rid 1 ?w0 = (Inl e, w')" and
    T: "trace w' = trace ?w0 @ [Inserted (next_record name ?rid 1 ?w0),
          Printed (''Inserted log '' @ str_int 1 @ '' for '' @ name)]"
    using loop_body_delay_rejected [where name = name and secs = secs and c = c and w = ?w0
        and rid = ?rid and seq = 1 and e = e] assms(1,2) c0
    by blast
  have 1: "run_writer (Suc fuel) c name cnt secs flw w = (Some (Inl e), w')"
    using run_loop_step [OF assms(4), of fuel c name secs ?rid ?w0] L
    by (simp add: run_writer_unfold)
  have 2: "length (attempts w') = length (attempts w) + 1"
    using T by (simp add: attempts_def attempts_of_append)
  show ?thesis by (intro exI [of _ w'] conjI 1 2)
qed

lemma run_writer_negative_interval:
  assumes "name \<noteq> []" and "d < 0" and "- 9223372036 \<le> d"
    and "c (length (attempts w)) (record_at name (uuids w (uuid_pos w)) 1 w 0) = None"
    and "flw \<or> 1 \<le> cnt"
  shows "\<exists>w'. run_writer (Suc fuel) c name cnt (Finite d) flw w =
             (Some (Inl (ValueError ''sleep length must be non-negative'')), w') \<and>
           length (attempts w') = length (attempts w) + 1"
  using assms(1) _ assms(4,5)
  by (rule run_writer_delay_rejected) (simp add: sleep_negative [OF assms(2,3)])

lemma run_writer_overlong_interval:
  assumes "name \<noteq> []" and "9223372037 \<le> d"
    and "c (length (attempts w)) (record_at name (uuids w (uuid_pos w)) 1 w 0) = None"
    and "flw \<or> 1 \<le> cnt"
  shows "\<exists>w'. run_writer (Suc fuel) c name cnt (Finite d) flw w =
             (Some (Inl (OverflowError ''timestamp too large to convert to C _PyTime_t'')), w') \<and>
           length (attempts w') = length (attempts w) + 1"
  using assms(1) _ assms(3,4)
  by (rule run_writer_delay_rejected) (simp add: sleep_too_long [OF assms(2)])





section \<open>Runs stopped in an iteration\<close>







section \<open>Interrupts\<close>





end
